theory Spec2Isabelle
  imports Main
begin

unbundle bit_operations_syntax

section \<open>The bundle script generator\<close>

text \<open>
  A shallow embedding of \<^verbatim>\<open>runtime/dart/gen_test_bundle_invocation.py\<close>: the function
  \<^verbatim>\<open>main\<close> parses \<^verbatim>\<open>--out\<close> and \<^verbatim>\<open>--test\<close>, makes the directory of the output file,
  builds the text of a shell script, writes it and changes the file's mode.
  The program is modelled as a function from the state of the world before the run and
  the command line to the way the process ends and the state of the world after it.
\<close>

subsection \<open>The command line\<close>

text \<open>
  The command line is modelled after tokenisation by \<^verbatim>\<open>argparse\<close>, as the list of the
  occurrences it meets from left to right:
  \<^item> \<open>Out p\<close>: the option \<^verbatim>\<open>--out\<close> with its value \<open>p\<close>;
  \<^item> \<open>Test t\<close>: the option \<^verbatim>\<open>--test\<close> with its value \<open>t\<close>;
  \<^item> \<open>Help\<close>: \<^verbatim>\<open>-h\<close> or \<^verbatim>\<open>--help\<close>, which every \<^verbatim>\<open>ArgumentParser\<close> has unless it is
    built with \<^verbatim>\<open>add_help=False\<close>;
  \<^item> \<open>Missing_Value\<close>: \<^verbatim>\<open>--out\<close> or \<^verbatim>\<open>--test\<close> with no value after it, an error raised
    when the parser reaches it;
  \<^item> \<open>Unrecognized\<close>: an argument string that belongs to no option; the parser puts it
    aside and reports it once the whole command line is read.
\<close>

datatype arg = Out string | Test string | Help | Missing_Value | Unrecognized

record args =
  out :: string
  test :: "string list"

text \<open>\<^verbatim>\<open>parse_args\<close> returns the namespace or ends the process (\<^verbatim>\<open>SystemExit\<close>).\<close>

datatype parsed = Parsed args | Exit int

text \<open>
  The parser's loop over the command line. \<open>dest_out\<close> is the value of \<^verbatim>\<open>--out\<close> so far
  (the action \<^verbatim>\<open>store\<close>: a later occurrence replaces an earlier one), \<open>dest_test\<close> the
  list of \<^verbatim>\<open>--test\<close> (the action \<^verbatim>\<open>append\<close>; the empty list stands for the default
  \<^verbatim>\<open>None\<close> of an option that never occurred), \<open>extras\<close> says that an unrecognized
  argument was seen. Printing the help ends the process with status 0,
  \<^verbatim>\<open>parser.error\<close> with status 2. Both options are \<^verbatim>\<open>required=True\<close>.
\<close>

fun consume :: "string option \<Rightarrow> string list \<Rightarrow> bool \<Rightarrow> arg list \<Rightarrow> parsed" where
  "consume dest_out dest_test extras [] =
     (case dest_out of
        None \<Rightarrow> Exit 2
      | Some p \<Rightarrow>
          if dest_test = [] then Exit 2
          else if extras then Exit 2
          else Parsed \<lparr>out = p, test = dest_test\<rparr>)"
| "consume dest_out dest_test extras (Out p # rest) = consume (Some p) dest_test extras rest"
| "consume dest_out dest_test extras (Test t # rest) =
     consume dest_out (dest_test @ [t]) extras rest"
| "consume dest_out dest_test extras (Help # rest) = Exit 0"
| "consume dest_out dest_test extras (Missing_Value # rest) = Exit 2"
| "consume dest_out dest_test extras (Unrecognized # rest) =
     consume dest_out dest_test True rest"

definition parse_args :: "arg list \<Rightarrow> parsed" where
  "parse_args argv = consume None [] False argv"

subsection \<open>Paths\<close>

text \<open>\<^verbatim>\<open>posixpath.split\<close> and \<^verbatim>\<open>posixpath.dirname\<close>, with \<^verbatim>\<open>str.rfind\<close> and \<^verbatim>\<open>str.rstrip\<close>.\<close>

definition sep :: char where
  "sep = CHR ''/''"

definition curdir :: string where
  "curdir = ''.''"

definition rfind_sep :: "string \<Rightarrow> int" where
  "rfind_sep p = int (length (dropWhile (\<lambda>c. c \<noteq> sep) (rev p))) - 1"

definition rstrip_sep :: "string \<Rightarrow> string" where
  "rstrip_sep s = rev (dropWhile (\<lambda>c. c = sep) (rev s))"

definition split_path :: "string \<Rightarrow> string \<times> string" where
  "split_path p =
     (let i = nat (rfind_sep p + 1);
          head = take i p;
          tail = drop i p
      in (if head \<noteq> [] \<and> head \<noteq> replicate (length head) sep then rstrip_sep head else head,
          tail))"

definition dirname :: "string \<Rightarrow> string" where
  "dirname p =
     (let i = nat (rfind_sep p + 1);
          head = take i p
      in if head \<noteq> [] \<and> head \<noteq> replicate (length head) sep then rstrip_sep head else head)"

subsection \<open>The file system\<close>

text \<open>
  The state of the world the program runs in. A path string names at most one object, a
  directory or a regular file with its content and its mode; strings are taken as they
  are (the model does not resolve \<^verbatim>\<open>.\<close>, \<^verbatim>\<open>..\<close>, repeated separators or symbolic links),
  and a relative name with an empty directory part lies in the current directory, which
  exists. What the program cannot know from the paths (ownership, access rights,
  read-only mounts, free space) is a parameter of the world: \<open>fault c p\<close> is the error
  the system call \<open>c\<close> ends with on the path \<open>p\<close> for such a reason, if any, and
  \<open>short_write\<close> the number of characters that reach a file when writing to it fails.
\<close>

datatype errno = ENOENT | EEXIST | ENOTDIR | EISDIR | EACCES | EPERM | EROFS | ENOSPC | EBADF

datatype node = Dir | File string int

datatype syscall = Mkdir | Open | Write | Chmod

record world =
  fs :: "string \<Rightarrow> node option"
  umask :: int
  fault :: "syscall \<Rightarrow> string \<Rightarrow> errno option"
  short_write :: nat

text \<open>\<^verbatim>\<open>os.path.exists\<close>: \<^verbatim>\<open>os.stat\<close> fails on the empty path.\<close>

definition exists_path :: "world \<Rightarrow> string \<Rightarrow> bool" where
  "exists_path w p = (p \<noteq> [] \<and> fs w p \<noteq> None)"

text \<open>
  What a system call that makes a new name finds in the directory part of the name:
  nothing to object to, no such directory, or a regular file in its place.
\<close>

definition parent_status :: "world \<Rightarrow> string \<Rightarrow> errno option" where
  "parent_status w p =
     (if dirname p = [] then None
      else case fs w (dirname p) of
             None \<Rightarrow> Some ENOENT
           | Some Dir \<Rightarrow> None
           | Some (File c m) \<Rightarrow> Some ENOTDIR)"

text \<open>\<^verbatim>\<open>os.mkdir\<close>.\<close>

definition mkdir :: "world \<Rightarrow> string \<Rightarrow> errno option \<times> world" where
  "mkdir w p =
     (if p = [] then (Some ENOENT, w)
      else if fs w p \<noteq> None then (Some EEXIST, w)
      else case parent_status w p of
             Some e \<Rightarrow> (Some e, w)
           | None \<Rightarrow>
               (case fault w Mkdir p of
                  Some e \<Rightarrow> (Some e, w)
                | None \<Rightarrow> (None, w\<lparr>fs := (fs w)(p \<mapsto> Dir)\<rparr>)))"

text \<open>
  \<^verbatim>\<open>os.makedirs(name)\<close>, with the default \<^verbatim>\<open>exist_ok=False\<close>: the recursive call makes
  the missing ancestors, and the error \<^verbatim>\<open>EEXIST\<close> of that call alone is swallowed.
\<close>

function makedirs :: "world \<Rightarrow> string \<Rightarrow> errno option \<times> world" where
  "makedirs w name =
     (let (head0, tail0) = split_path name;
          (head, tail) = (if tail0 = [] then split_path head0 else (head0, tail0))
      in if head \<noteq> [] \<and> tail \<noteq> [] \<and> \<not> exists_path w head then
           (case makedirs w head of
              (Some e, w') \<Rightarrow>
                if e = EEXIST then (if tail = curdir then (None, w') else mkdir w' name)
                else (Some e, w')
            | (None, w') \<Rightarrow> if tail = curdir then (None, w') else mkdir w' name)
         else mkdir w name)"
  by pat_completeness auto

termination makedirs
proof (relation "measure (\<lambda>(w, name). length name)", goal_cases)
  case 1
  show ?case by simp
next
  case (2 w name x head0 tail0 xa head tail)
  have strip: "length (rstrip_sep s) \<le> length s" for s
    using length_dropWhile_le [of "\<lambda>c. c = sep" "rev s"] by (simp add: rstrip_sep_def)
  have le: "length (fst (split_path p)) \<le> length p" for p
    using strip [of "take (nat (rfind_sep p + 1)) p"]
    by (auto simp: split_path_def Let_def)
  have less: "length (fst (split_path p)) < length p" if "snd (split_path p) \<noteq> []" for p
    using that strip [of "take (nat (rfind_sep p + 1)) p"]
    by (auto simp: split_path_def Let_def)
  from 2(5) have tl: "tail \<noteq> []" by simp
  from 2(1,2) have name: "split_path name = (head0, tail0)" by simp
  have "length head < length name"
  proof (cases "tail0 = []")
    case True
    from 2(3,4) True have eq: "split_path head0 = (head, tail)" by simp
    have "snd (split_path head0) \<noteq> []" by (simp add: eq tl)
    from less [OF this] have "length head < length head0" by (simp add: eq)
    moreover from le [of name] have "length head0 \<le> length name" by (simp add: name)
    ultimately show ?thesis by simp
  next
    case False
    from 2(3,4) False have eq: "head = head0" "tail = tail0" by simp_all
    have "snd (split_path name) \<noteq> []" using tl by (simp add: name eq)
    from less [OF this] show ?thesis by (simp add: name eq)
  qed
  then show ?case by simp
qed

declare makedirs.simps [simp del]

text \<open>
  \<^verbatim>\<open>open(p, 'w')\<close>: an existing regular file is truncated and keeps its mode, a new one
  is made with the mode \<^verbatim>\<open>0o666 & ~umask\<close>.
\<close>

definition open_w :: "world \<Rightarrow> string \<Rightarrow> errno option \<times> world" where
  "open_w w p =
     (if p = [] then (Some ENOENT, w)
      else if last p = sep then (Some EISDIR, w)
      else case fs w p of
             Some Dir \<Rightarrow> (Some EISDIR, w)
           | Some (File c m) \<Rightarrow>
               (case fault w Open p of
                  Some e \<Rightarrow> (Some e, w)
                | None \<Rightarrow> (None, w\<lparr>fs := (fs w)(p \<mapsto> File [] m)\<rparr>))
           | None \<Rightarrow>
               (case parent_status w p of
                  Some e \<Rightarrow> (Some e, w)
                | None \<Rightarrow>
                    (case fault w Open p of
                       Some e \<Rightarrow> (Some e, w)
                     | None \<Rightarrow> (None, w\<lparr>fs := (fs w)(p \<mapsto> File [] (438 AND NOT (umask w)))\<rparr>))))"

text \<open>
  \<^verbatim>\<open>file.write(s)\<close> and the flush when the \<^verbatim>\<open>with\<close> block closes the file: the whole
  text, or on a failure its first \<open>short_write\<close> characters.
\<close>

definition file_write :: "world \<Rightarrow> string \<Rightarrow> string \<Rightarrow> errno option \<times> world" where
  "file_write w p s =
     (case fs w p of
        Some (File c m) \<Rightarrow>
          (case fault w Write p of
             Some e \<Rightarrow> (Some e, w\<lparr>fs := (fs w)(p \<mapsto> File (take (short_write w) s) m)\<rparr>)
           | None \<Rightarrow> (None, w\<lparr>fs := (fs w)(p \<mapsto> File s m)\<rparr>))
      | Some Dir \<Rightarrow> (Some EBADF, w)
      | None \<Rightarrow> (Some EBADF, w))"

text \<open>\<^verbatim>\<open>os.chmod\<close>; the mode of a directory is not part of the model.\<close>

definition chmod :: "world \<Rightarrow> string \<Rightarrow> int \<Rightarrow> errno option \<times> world" where
  "chmod w p m =
     (if p = [] then (Some ENOENT, w)
      else case fs w p of
             None \<Rightarrow> (Some ENOENT, w)
           | Some n \<Rightarrow>
               (case fault w Chmod p of
                  Some e \<Rightarrow> (Some e, w)
                | None \<Rightarrow>
                    (None,
                     w\<lparr>fs := (fs w)(p \<mapsto> (case n of Dir \<Rightarrow> Dir | File c m0 \<Rightarrow> File c (m AND 4095)))\<rparr>)))"

subsection \<open>The program\<close>

text \<open>The constants of the module \<^verbatim>\<open>stat\<close>.\<close>

definition S_IRUSR :: int where "S_IRUSR = 256"
definition S_IWUSR :: int where "S_IWUSR = 128"
definition S_IXUSR :: int where "S_IXUSR = 64"
definition S_IRGRP :: int where "S_IRGRP = 32"
definition S_IWGRP :: int where "S_IWGRP = 16"
definition S_IXGRP :: int where "S_IXGRP = 8"
definition S_IROTH :: int where "S_IROTH = 4"
definition S_IWOTH :: int where "S_IWOTH = 2"
definition S_IXOTH :: int where "S_IXOTH = 1"

definition permissions :: int where
  "permissions = (S_IRUSR OR S_IWUSR OR S_IXUSR OR S_IRGRP OR S_IWGRP OR S_IXGRP OR S_IROTH)"

definition newline :: char where
  "newline = CHR 0x0A"

text \<open>
  \<^verbatim>\<open>script = '#!/bin/sh\n\n'\<close>, then \<^verbatim>\<open>script += "%s\n" % test_executable\<close> for each
  element of \<^verbatim>\<open>args.test\<close>.
\<close>

definition shebang :: string where
  "shebang = ''#!/bin/sh''"

definition build_script :: "string list \<Rightarrow> string" where
  "build_script tests =
     foldl (\<lambda>script test_executable. script @ test_executable @ [newline])
       (shebang @ [newline, newline]) tests"

text \<open>
  How the process ends: \<^verbatim>\<open>main\<close> returns (and \<^verbatim>\<open>sys.exit(None)\<close> ends it with status
  0), \<^verbatim>\<open>argparse\<close> ends it, or an exception of the operating system leaves \<^verbatim>\<open>main\<close>
  uncaught and the interpreter ends with status 1.
\<close>

datatype outcome = Returned | SystemExit int | Raised errno

definition exit_code :: "outcome \<Rightarrow> int" where
  "exit_code r = (case r of Returned \<Rightarrow> 0 | SystemExit n \<Rightarrow> n | Raised e \<Rightarrow> 1)"

text \<open>The steps of \<^verbatim>\<open>main\<close> after the parsing.\<close>

definition ensure_dir :: "world \<Rightarrow> string \<Rightarrow> errno option \<times> world" where
  "ensure_dir w test_dir = (if \<not> exists_path w test_dir then makedirs w test_dir else (None, w))"

definition write_file :: "world \<Rightarrow> string \<Rightarrow> string \<Rightarrow> errno option \<times> world" where
  "write_file w test_file script =
     (case open_w w test_file of
        (Some e, w') \<Rightarrow> (Some e, w')
      | (None, w') \<Rightarrow> file_write w' test_file script)"

definition main :: "world \<Rightarrow> arg list \<Rightarrow> outcome \<times> world" where
  "main w argv =
     (case parse_args argv of
        Exit n \<Rightarrow> (SystemExit n, w)
      | Parsed a \<Rightarrow>
          (let test_file = out a;
               test_dir = dirname test_file
           in case ensure_dir w test_dir of
                (Some e, w1) \<Rightarrow> (Raised e, w1)
              | (None, w1) \<Rightarrow>
                  (let script = build_script (test a)
                   in case write_file w1 test_file script of
                        (Some e, w2) \<Rightarrow> (Raised e, w2)
                      | (None, w2) \<Rightarrow>
                          (case chmod w2 test_file permissions of
                             (Some e, w3) \<Rightarrow> (Raised e, w3)
                           | (None, w3) \<Rightarrow> (Returned, w3)))))"

subsection \<open>Notions used to state the properties\<close>

text \<open>The values of \<^verbatim>\<open>--test\<close> on a command line, from left to right.\<close>

fun targets :: "arg list \<Rightarrow> string list" where
  "targets [] = []"
| "targets (Test t # rest) = t # targets rest"
| "targets (Out p # rest) = targets rest"
| "targets (Help # rest) = targets rest"
| "targets (Missing_Value # rest) = targets rest"
| "targets (Unrecognized # rest) = targets rest"

text \<open>The occurrences of \<^verbatim>\<open>--test\<close> and those of \<^verbatim>\<open>--out\<close>.\<close>

fun is_test :: "arg \<Rightarrow> bool" where
  "is_test (Test t) = True"
| "is_test (Out p) = False"
| "is_test Help = False"
| "is_test Missing_Value = False"
| "is_test Unrecognized = False"


text \<open>
  The mode of the file \<open>p\<close> once \<^verbatim>\<open>open(p, 'w')\<close> has returned: the mode it had, or
  the mode of a new file.
\<close>

definition mode_after_open :: "world \<Rightarrow> string \<Rightarrow> int" where
  "mode_after_open w p =
     (case fs w p of
        Some (File c m) \<Rightarrow> m
      | Some Dir \<Rightarrow> 438 AND NOT (umask w)
      | None \<Rightarrow> 438 AND NOT (umask w))"

text \<open>
  The scenario of the specification:
  \<^verbatim>\<open>--out /tmp/build/run_tests.sh --test ./unit_test --test ./integration_test\<close>, run
  where \<^verbatim>\<open>/tmp\<close> exists and \<^verbatim>\<open>/tmp/build\<close> does not, with the umask \<^verbatim>\<open>022\<close> and no
  fault.
\<close>

definition example_world :: world where
  "example_world =
     \<lparr>fs = [''/'' \<mapsto> Dir, ''/tmp'' \<mapsto> Dir], umask = 18, fault = (\<lambda>c p. None),
      short_write = 0\<rparr>"

definition example_argv :: "arg list" where
  "example_argv =
     [Out ''/tmp/build/run_tests.sh'', Test ''./unit_test'', Test ''./integration_test'']"

text \<open>A command line that gives one target twice, around \<^verbatim>\<open>--out\<close> and another target.\<close>

definition repeated_argv :: "arg list" where
  "repeated_argv = [Test ''./b'', Out ''/tmp/run.sh'', Test ''./a'', Test ''./b'']"

text \<open>
  \<^verbatim>\<open>str.join\<close>, and the content the specification gives for the targets \<open>T\<close> in its
  list of testable properties, word for word:
  \<^verbatim>\<open>"#!/sh\n\n" + join(T, "\n") + "\n"\<close>.
\<close>

fun join :: "string \<Rightarrow> string list \<Rightarrow> string" where
  "join s [] = []"
| "join s [x] = x"
| "join s (x # y # ys) = x @ s @ join s (y # ys)"

definition spec_content :: "string list \<Rightarrow> string" where
  "spec_content T = ''#!/sh'' @ [newline, newline] @ join [newline] T @ [newline]"

text \<open>
  An output path with no directory part.
\<close>

definition bare_argv :: "arg list" where
  "bare_argv = [Out ''run_tests.sh'', Test ''./unit_test'']"




text \<open>
  Worlds in which the output file of the scenario is there before the run: one where it
  is an older file of the user, one where it belongs to somebody else, is writable and
  executable by everybody (mode \<^verbatim>\<open>0o777\<close>), and \<^verbatim>\<open>chmod\<close> is refused; and a world
  where the file is new and \<^verbatim>\<open>chmod\<close> is refused, as on a file system without modes.
\<close>

definition stale_world :: world where
  "stale_world =
     \<lparr>fs = [''/'' \<mapsto> Dir, ''/tmp'' \<mapsto> Dir, ''/tmp/build'' \<mapsto> Dir,
            ''/tmp/build/run_tests.sh'' \<mapsto>
              File ''#!/bin/sh: an older and much longer text that is to be replaced by the run'' 384],
      umask = 18, fault = (\<lambda>c p. None), short_write = 0\<rparr>"

definition foreign_world :: world where
  "foreign_world =
     \<lparr>fs = [''/'' \<mapsto> Dir, ''/tmp'' \<mapsto> Dir, ''/tmp/build'' \<mapsto> Dir,
            ''/tmp/build/run_tests.sh'' \<mapsto> File ''echo old'' 511],
      umask = 18, fault = (\<lambda>c p. if c = Chmod then Some EPERM else None), short_write = 0\<rparr>"

definition modeless_world :: world where
  "modeless_world =
     \<lparr>fs = [''/'' \<mapsto> Dir, ''/tmp'' \<mapsto> Dir],
      umask = 18, fault = (\<lambda>c p. if c = Chmod then Some EPERM else None), short_write = 0\<rparr>"

text \<open>
  The namespace of the scenario, and the states of the last world after the directory
  is made and after the file is written.
\<close>

definition example_args :: args where
  "example_args =
     \<lparr>out = ''/tmp/build/run_tests.sh'', test = [''./unit_test'', ''./integration_test'']\<rparr>"

definition modeless_world1 :: world where
  "modeless_world1 = snd (ensure_dir modeless_world (dirname (out example_args)))"

definition modeless_world2 :: world where
  "modeless_world2 =
     snd (write_file modeless_world1 (out example_args) (build_script (test example_args)))"

section \<open>Properties\<close>

subsection \<open>The steps of a run\<close>

lemma foldl_lines:
  "foldl (\<lambda>script test_executable. script @ test_executable @ [newline]) acc ts =
     acc @ concat (map (\<lambda>t. t @ [newline]) ts)"
  by (induction ts arbitrary: acc) simp_all

lemma build_script_lines:
  "build_script ts = shebang @ [newline, newline] @ concat (map (\<lambda>t. t @ [newline]) ts)"
  by (simp add: build_script_def foldl_lines)

lemma consume_Parsed:
  "consume d ts ex argv = Parsed a \<Longrightarrow> test a = ts @ targets argv \<and> test a \<noteq> []"
  by (induction d ts ex argv rule: consume.induct) (auto split: option.splits if_splits)

lemma parse_args_Parsed:
  "parse_args argv = Parsed a \<Longrightarrow> test a = targets argv \<and> test a \<noteq> []"
  by (auto simp: parse_args_def dest: consume_Parsed)

lemma targets_filter: "map Test (targets argv) = filter is_test argv"
  by (induction argv rule: targets.induct) simp_all

lemma open_w_ok:
  "open_w w p = (None, w') \<Longrightarrow> w' = w\<lparr>fs := (fs w)(p \<mapsto> File [] (mode_after_open w p))\<rparr>"
  by (auto simp: open_w_def mode_after_open_def split: if_splits option.splits node.splits)

lemma file_write_ok:
  "file_write w p s = (None, w') \<Longrightarrow> fs w p = Some (File c m) \<Longrightarrow>
     w' = w\<lparr>fs := (fs w)(p \<mapsto> File s m)\<rparr>"
  by (auto simp: file_write_def split: option.splits node.splits)

lemma write_file_ok:
  assumes "write_file w p s = (None, w')"
  shows "w' = w\<lparr>fs := (fs w)(p \<mapsto> File s (mode_after_open w p))\<rparr>"
proof -
  from assms obtain w1 where o: "open_w w p = (None, w1)" and f: "file_write w1 p s = (None, w')"
    by (auto simp: write_file_def split: prod.splits option.splits)
  from open_w_ok [OF o] have w1: "w1 = w\<lparr>fs := (fs w)(p \<mapsto> File [] (mode_after_open w p))\<rparr>" .
  then have "fs w1 p = Some (File [] (mode_after_open w p))" by simp
  from file_write_ok [OF f this] show ?thesis by (simp add: w1)
qed

lemma chmod_ok:
  "chmod w p m = (None, w') \<Longrightarrow> fs w p = Some (File c m0) \<Longrightarrow>
     w' = w\<lparr>fs := (fs w)(p \<mapsto> File c (m AND 4095))\<rparr>"
  by (auto simp: chmod_def split: if_splits option.splits)

lemma main_Returned:
  assumes "main w argv = (Returned, w')"
  shows "\<exists>a w1 w2. parse_args argv = Parsed a \<and>
           ensure_dir w (dirname (out a)) = (None, w1) \<and>
           write_file w1 (out a) (build_script (test a)) = (None, w2) \<and>
           chmod w2 (out a) permissions = (None, w')"
  using assms
  by (auto simp: main_def Let_def split: parsed.splits prod.splits option.splits)

lemma permissions_value: "permissions = 508"
  by (simp add: permissions_def S_IRUSR_def S_IWUSR_def S_IXUSR_def S_IRGRP_def S_IWGRP_def
      S_IXGRP_def S_IROTH_def)

lemma main_Returned_file:
  assumes "main w argv = (Returned, w')"
  shows "\<exists>a. parse_args argv = Parsed a \<and>
           fs w' (out a) = Some (File (build_script (test a)) 508)"
proof -
  from main_Returned [OF assms] obtain a w1 w2 where
    p: "parse_args argv = Parsed a" and
    wr: "write_file w1 (out a) (build_script (test a)) = (None, w2)" and
    ch: "chmod w2 (out a) permissions = (None, w')"
    by blast
  from write_file_ok [OF wr]
  have w2: "fs w2 (out a) = Some (File (build_script (test a)) (mode_after_open w1 (out a)))"
    by simp
  from chmod_ok [OF ch w2]
  have "fs w' (out a) = Some (File (build_script (test a)) (permissions AND 4095))"
    by simp
  then show ?thesis using p by (auto simp: permissions_value)
qed

lemma example_run: "main example_world example_argv = (Returned, snd (main example_world example_argv))"
proof -
  have "fst (main example_world example_argv) = Returned" by code_simp
  then show ?thesis by (simp add: prod_eq_iff)
qed

subsection \<open>The content of the generated file\<close>

text \<open>
  C1. When a run succeeds, the command line gave an output path and a list of targets
  that is not empty, and the file at the output path holds the line \<^verbatim>\<open>#!/bin/sh\<close>, an
  empty line, and then the targets as they were given, in their order, each followed by
  one newline character and nothing after the newline of the last one.
\<close>

theorem generated_script_content:
  assumes "main w argv = (Returned, w')"
  shows "\<exists>a m. parse_args argv = Parsed a \<and> test a \<noteq> [] \<and>
           fs w' (out a) =
             Some (File (''#!/bin/sh'' @ [newline] @ [newline] @
                         concat (map (\<lambda>t. t @ [newline]) (test a))) m)"
proof -
  from main_Returned_file [OF assms] obtain a where
    p: "parse_args argv = Parsed a" and
    f: "fs w' (out a) = Some (File (build_script (test a)) 508)"
    by blast
  from parse_args_Parsed [OF p] have "test a \<noteq> []" by blast
  with p f show ?thesis by (auto simp: build_script_lines shebang_def)
qed

theorem generated_script_content_witness:
  "main example_world example_argv = (Returned, snd (main example_world example_argv)) \<and>
   (\<exists>a m. parse_args example_argv = Parsed a \<and> test a \<noteq> [] \<and>
      fs (snd (main example_world example_argv)) (out a) =
        Some (File (''#!/bin/sh'' @ [newline] @ [newline] @
                    concat (map (\<lambda>t. t @ [newline]) (test a))) m))"
  using generated_script_content [OF example_run] example_run by simp

subsection \<open>The mode of the generated file\<close>

text \<open>
  C2. When a run succeeds, the script was first written to the output path, and then, in
  a step of its own on the state the write left, the mode of the file was changed; the
  file then has the mode \<^verbatim>\<open>0o774\<close>: read, write and execute for the owner and for the
  group, read alone for the others.
\<close>

theorem permissions_set_after_write:
  assumes "main w argv = (Returned, w')"
  shows "\<exists>a w1 w2 m.
           parse_args argv = Parsed a \<and>
           write_file w1 (out a) (build_script (test a)) = (None, w2) \<and>
           fs w2 (out a) = Some (File (build_script (test a)) m) \<and>
           chmod w2 (out a) permissions = (None, w') \<and>
           fs w' (out a) = Some (File (build_script (test a)) permissions) \<and>
           permissions = 508 \<and>
           permissions AND S_IRUSR = S_IRUSR \<and> permissions AND S_IWUSR = S_IWUSR \<and>
           permissions AND S_IXUSR = S_IXUSR \<and> permissions AND S_IRGRP = S_IRGRP \<and>
           permissions AND S_IWGRP = S_IWGRP \<and> permissions AND S_IXGRP = S_IXGRP \<and>
           permissions AND S_IROTH = S_IROTH \<and> permissions AND S_IWOTH = 0 \<and>
           permissions AND S_IXOTH = 0"
proof -
  from main_Returned [OF assms] obtain a w1 w2 where
    p: "parse_args argv = Parsed a" and
    wr: "write_file w1 (out a) (build_script (test a)) = (None, w2)" and
    ch: "chmod w2 (out a) permissions = (None, w')"
    by blast
  from write_file_ok [OF wr]
  have w2: "fs w2 (out a) = Some (File (build_script (test a)) (mode_after_open w1 (out a)))"
    by simp
  from chmod_ok [OF ch w2]
  have w': "fs w' (out a) = Some (File (build_script (test a)) permissions)"
    by (simp add: permissions_value)
  have bits: "permissions AND S_IRUSR = S_IRUSR" "permissions AND S_IWUSR = S_IWUSR"
    "permissions AND S_IXUSR = S_IXUSR" "permissions AND S_IRGRP = S_IRGRP"
    "permissions AND S_IWGRP = S_IWGRP" "permissions AND S_IXGRP = S_IXGRP"
    "permissions AND S_IROTH = S_IROTH" "permissions AND S_IWOTH = 0"
    "permissions AND S_IXOTH = 0"
    by (simp_all add: permissions_value S_IRUSR_def S_IWUSR_def S_IXUSR_def S_IRGRP_def
        S_IWGRP_def S_IXGRP_def S_IROTH_def S_IWOTH_def S_IXOTH_def)
  from p wr w2 ch w' bits permissions_value show ?thesis by blast
qed

theorem permissions_set_after_write_witness:
  "main example_world example_argv = (Returned, snd (main example_world example_argv)) \<and>
   (\<exists>a w1 w2 m.
      parse_args example_argv = Parsed a \<and>
      write_file w1 (out a) (build_script (test a)) = (None, w2) \<and>
      fs w2 (out a) = Some (File (build_script (test a)) m) \<and>
      chmod w2 (out a) permissions = (None, snd (main example_world example_argv)) \<and>
      fs (snd (main example_world example_argv)) (out a) =
        Some (File (build_script (test a)) permissions) \<and>
      permissions = 508)"
  using permissions_set_after_write [OF example_run] example_run by blast

subsection \<open>The order of the targets\<close>

text \<open>
  C4. When a run succeeds, the lines of the file after the two lines of the header are
  the values of the occurrences of \<^verbatim>\<open>--test\<close> on the command line, all of them and in
  the order of the command line: nothing is sorted and nothing is dropped, so a target
  given twice is written twice.
\<close>

theorem target_order_preserved:
  assumes "main w argv = (Returned, w')"
  shows "\<exists>a m. parse_args argv = Parsed a \<and>
           map Test (test a) = filter is_test argv \<and>
           fs w' (out a) =
             Some (File (shebang @ [newline, newline] @
                         concat (map (\<lambda>t. t @ [newline]) (test a))) m)"
proof -
  from main_Returned_file [OF assms] obtain a where
    p: "parse_args argv = Parsed a" and
    f: "fs w' (out a) = Some (File (build_script (test a)) 508)"
    by blast
  from parse_args_Parsed [OF p] have "test a = targets argv" by blast
  then have "map Test (test a) = filter is_test argv" by (simp add: targets_filter)
  with p f show ?thesis by (auto simp: build_script_lines)
qed

lemma repeated_run:
  "main example_world repeated_argv = (Returned, snd (main example_world repeated_argv))"
proof -
  have "fst (main example_world repeated_argv) = Returned" by code_simp
  then show ?thesis by (simp add: prod_eq_iff)
qed

theorem target_order_preserved_witness:
  "main example_world repeated_argv = (Returned, snd (main example_world repeated_argv)) \<and>
   (\<exists>a m. parse_args repeated_argv = Parsed a \<and>
      map Test (test a) = [Test ''./b'', Test ''./a'', Test ''./b''] \<and>
      fs (snd (main example_world repeated_argv)) (out a) =
        Some (File (shebang @ [newline, newline] @
                    concat (map (\<lambda>t. t @ [newline]) (test a))) m))"
proof -
  have "filter is_test repeated_argv = [Test ''./b'', Test ''./a'', Test ''./b'']"
    by (simp add: repeated_argv_def)
  with target_order_preserved [OF repeated_run] repeated_run show ?thesis by simp
qed

lemma lines_join:
  "ts \<noteq> [] \<Longrightarrow> concat (map (\<lambda>t. t @ [newline]) ts) = join [newline] ts @ [newline]"
  by (induction "[newline]" ts rule: join.induct) simp_all

subsection \<open>The content as one string\<close>

text \<open>
  C3, as the specification states it, with the first line \<^verbatim>\<open>#!/sh\<close>, does not hold: in
  the scenario of the specification the run succeeds and the file does not hold the
  content the claim gives for the two targets.
\<close>

theorem spec_content_counterexample:
  "fst (main example_world example_argv) = Returned \<and>
   fs (snd (main example_world example_argv)) ''/tmp/build/run_tests.sh'' \<noteq>
     Some (File (spec_content [''./unit_test'', ''./integration_test'']) 508)"
  by code_simp

text \<open>
  C3, amended: when a run succeeds, the list \<open>T\<close> of the targets is not empty and the
  file at the output path holds \<^verbatim>\<open>"#!/bin/sh\n\n" + join(T, "\n") + "\n"\<close>.
\<close>

theorem generated_content_join:
  assumes "main w argv = (Returned, w')"
  shows "\<exists>a. parse_args argv = Parsed a \<and> test a \<noteq> [] \<and>
           fs w' (out a) =
             Some (File (''#!/bin/sh'' @ [newline, newline] @ join [newline] (test a) @ [newline])
                    508)"
proof -
  from main_Returned_file [OF assms] obtain a where
    p: "parse_args argv = Parsed a" and
    f: "fs w' (out a) = Some (File (build_script (test a)) 508)"
    by blast
  from parse_args_Parsed [OF p] have ne: "test a \<noteq> []" by blast
  from f have "fs w' (out a) =
      Some (File (''#!/bin/sh'' @ [newline, newline] @ join [newline] (test a) @ [newline]) 508)"
    by (simp add: build_script_lines shebang_def lines_join [OF ne])
  with p ne show ?thesis by blast
qed

theorem generated_content_join_witness:
  "main example_world example_argv = (Returned, snd (main example_world example_argv)) \<and>
   (\<exists>a. parse_args example_argv = Parsed a \<and> test a \<noteq> [] \<and>
      fs (snd (main example_world example_argv)) (out a) =
        Some (File (''#!/bin/sh'' @ [newline, newline] @ join [newline] (test a) @ [newline])
               508))"
  using generated_content_join [OF example_run] example_run by blast

subsection \<open>An output path with no directory part\<close>

lemma dirname_no_sep: "sep \<notin> set p \<Longrightarrow> dirname p = []"
proof -
  assume "sep \<notin> set p"
  then have "dropWhile (\<lambda>c. c \<noteq> sep) (rev p) = []" by auto
  then show ?thesis by (simp add: dirname_def rfind_sep_def)
qed

lemma makedirs_empty: "makedirs w [] = (Some ENOENT, w)"
proof -
  have "split_path [] = ([], [])" by (simp add: split_path_def rfind_sep_def)
  then show ?thesis by (simp add: makedirs.simps [of w "[]"] mkdir_def)
qed

lemma main_no_dir:
  assumes "parse_args argv = Parsed a" and "dirname (out a) = []"
  shows "main w argv = (Raised ENOENT, w)"
  using assms by (simp add: main_def ensure_dir_def exists_path_def makedirs_empty)

text \<open>
  C10. When the output path is not empty and has no separator in it, its directory part
  is the empty string; the run ends with the exception that \<^verbatim>\<open>os.makedirs('')\<close> raises,
  which nothing catches, and the world is as it was: no file is written. The directory
  the file would lie in is the current one, and creating the file there would find
  nothing wrong with that directory.
\<close>

theorem bare_output_path_fails:
  assumes "parse_args argv = Parsed a" and "out a \<noteq> []" and "sep \<notin> set (out a)"
  shows "dirname (out a) = [] \<and> \<not> exists_path w (dirname (out a)) \<and>
         makedirs w (dirname (out a)) = (Some ENOENT, w) \<and>
         main w argv = (Raised ENOENT, w) \<and>
         exit_code (fst (main w argv)) = 1 \<and>
         parent_status w (out a) = None"
proof -
  from assms(3) have d: "dirname (out a) = []" by (rule dirname_no_sep)
  from main_no_dir [OF assms(1) d] have m: "main w argv = (Raised ENOENT, w)" .
  from d m show ?thesis
    by (simp add: exists_path_def makedirs_empty exit_code_def parent_status_def)
qed

theorem bare_output_path_fails_witness:
  "parse_args bare_argv = Parsed \<lparr>out = ''run_tests.sh'', test = [''./unit_test'']\<rparr> \<and>
   ''run_tests.sh'' \<noteq> [] \<and> sep \<notin> set ''run_tests.sh'' \<and>
   main example_world bare_argv = (Raised ENOENT, example_world) \<and>
   exit_code (fst (main example_world bare_argv)) = 1"
proof -
  have p: "parse_args bare_argv = Parsed \<lparr>out = ''run_tests.sh'', test = [''./unit_test'']\<rparr>"
    by (simp add: parse_args_def bare_argv_def)
  have s: "sep \<notin> set (out \<lparr>out = ''run_tests.sh'', test = [''./unit_test'']\<rparr>)"
    by (simp add: sep_def)
  have n: "out \<lparr>out = ''run_tests.sh'', test = [''./unit_test'']\<rparr> \<noteq> []" by simp
  from bare_output_path_fails [OF p n s, of example_world] p s show ?thesis
    by (simp add: exit_code_def)
qed

subsection \<open>The directory of the output file\<close>

lemma ensure_dir_existing: "exists_path w d \<Longrightarrow> ensure_dir w d = (None, w)"
  by (simp add: ensure_dir_def)

lemma ensure_dir_ancestors_example:
  "map (fs (snd (ensure_dir example_world ''/x/y/z''))) [''/x'', ''/x/y'', ''/x/y/z''] =
     [Some Dir, Some Dir, Some Dir]"
  by code_simp

text \<open>
  C6 does not hold of the program for an output path with no directory part. In a world
  where the current directory exists, as it always does,
  \<^verbatim>\<open>--out run_tests.sh --test ./unit_test\<close> ends with the error of \<^verbatim>\<open>os.makedirs('')\<close>:
  the step that makes the directory does not succeed silently, and there is no file
  afterwards.
\<close>

theorem bare_output_path_example:
  "main example_world bare_argv = (Raised ENOENT, example_world) \<and>
   fs (snd (main example_world bare_argv)) ''run_tests.sh'' = None"
proof -
  have p: "parse_args bare_argv = Parsed \<lparr>out = ''run_tests.sh'', test = [''./unit_test'']\<rparr>"
    by (simp add: parse_args_def bare_argv_def)
  have "dirname (out \<lparr>out = ''run_tests.sh'', test = [''./unit_test'']\<rparr>) = []"
    by (simp add: dirname_no_sep sep_def)
  from main_no_dir [OF p this, of example_world] show ?thesis
    by (simp add: example_world_def)
qed

subsection \<open>The end of the parsing\<close>








subsection \<open>Required options\<close>




subsection \<open>The exit status\<close>







subsection \<open>Two runs with the same arguments\<close>

text \<open>
  C7. Two successful runs with the same command line, in any two worlds, leave the same
  file at the output path, content and mode: what the file is depends on the arguments
  alone, and what was at the output path before has no part in it.
\<close>

theorem generation_deterministic:
  assumes "main w1 argv = (Returned, w1')" and "main w2 argv = (Returned, w2')"
  shows "\<exists>a. parse_args argv = Parsed a \<and>
           fs w1' (out a) = Some (File (build_script (test a)) 508) \<and>
           fs w2' (out a) = fs w1' (out a)"
proof -
  from main_Returned_file [OF assms(1)] obtain a where
    a: "parse_args argv = Parsed a" "fs w1' (out a) = Some (File (build_script (test a)) 508)"
    by blast
  from main_Returned_file [OF assms(2)] obtain b where
    b: "parse_args argv = Parsed b" "fs w2' (out b) = Some (File (build_script (test b)) 508)"
    by blast
  from a(1) b(1) have "b = a" by simp
  with a b show ?thesis by simp
qed

lemma stale_run: "main stale_world example_argv = (Returned, snd (main stale_world example_argv))"
proof -
  have "fst (main stale_world example_argv) = Returned" by code_simp
  then show ?thesis by (simp add: prod_eq_iff)
qed

theorem generation_deterministic_witness:
  "main example_world example_argv = (Returned, snd (main example_world example_argv)) \<and>
   main stale_world example_argv = (Returned, snd (main stale_world example_argv)) \<and>
   fs stale_world ''/tmp/build/run_tests.sh'' \<noteq> fs example_world ''/tmp/build/run_tests.sh'' \<and>
   (\<exists>a. parse_args example_argv = Parsed a \<and>
      fs (snd (main example_world example_argv)) (out a) =
        Some (File (build_script (test a)) 508) \<and>
      fs (snd (main stale_world example_argv)) (out a) =
        fs (snd (main example_world example_argv)) (out a))"
proof -
  have "fs stale_world ''/tmp/build/run_tests.sh'' \<noteq> fs example_world ''/tmp/build/run_tests.sh''"
    by (simp add: stale_world_def example_world_def)
  with generation_deterministic [OF example_run stale_run] example_run stale_run
  show ?thesis by blast
qed

subsection \<open>A refused change of mode\<close>

lemma chmod_error: "chmod w p m = (Some e, w') \<Longrightarrow> w' = w"
  by (auto simp: chmod_def split: if_splits option.splits)

lemma new_file_not_executable: "(438 AND NOT u) AND (S_IXUSR OR S_IXGRP OR S_IXOTH) = (0::int)"
proof -
  have "(438 AND NOT u) AND (73::int) = (438 AND 73) AND NOT u"
    by (simp add: and.assoc and.commute and.left_commute)
  also have "\<dots> = 0" by simp
  finally show ?thesis by (simp add: S_IXUSR_def S_IXGRP_def S_IXOTH_def)
qed

text \<open>
  C8, as stated, does not hold: the file need not be left in a state that is not
  executable. Where the output file is there before the run with the mode \<^verbatim>\<open>0o777\<close> and
  the process may write to it and may not change its mode, the write succeeds,
  \<^verbatim>\<open>os.chmod\<close> raises, and the file is left with the script as its content and with the
  mode it had, executable by everybody.
\<close>

theorem chmod_failure_counterexample:
  "fst (main foreign_world example_argv) = Raised EPERM \<and>
   fs (snd (main foreign_world example_argv)) ''/tmp/build/run_tests.sh'' =
     Some (File (build_script [''./unit_test'', ''./integration_test'']) 511) \<and>
   511 AND S_IXUSR = S_IXUSR \<and> 511 AND S_IXGRP = S_IXGRP \<and> 511 AND S_IXOTH = S_IXOTH"
  by code_simp

text \<open>
  C8, amended: when the write succeeds and the change of the mode fails, the run ends
  with the error of \<^verbatim>\<open>os.chmod\<close>, uncaught (exit status 1), and the world is left as the
  write left it, nothing being undone or deleted: the file is at the output path with the
  script as its content and the mode it had when it was opened, its old mode if it was
  there before, and otherwise the mode \<^verbatim>\<open>0o666 & ~umask\<close> of a new file, which has no
  execute bit.
\<close>

theorem chmod_failure_leaves_file:
  assumes "parse_args argv = Parsed a"
    and "ensure_dir w (dirname (out a)) = (None, w1)"
    and "write_file w1 (out a) (build_script (test a)) = (None, w2)"
    and "chmod w2 (out a) permissions = (Some e, w3)"
  shows "main w argv = (Raised e, w2) \<and> exit_code (fst (main w argv)) = 1 \<and>
         fs w2 (out a) = Some (File (build_script (test a)) (mode_after_open w1 (out a))) \<and>
         (\<forall>c m. fs w1 (out a) = Some (File c m) \<longrightarrow> mode_after_open w1 (out a) = m) \<and>
         (fs w1 (out a) = None \<longrightarrow>
            mode_after_open w1 (out a) = 438 AND NOT (umask w1) \<and>
            mode_after_open w1 (out a) AND (S_IXUSR OR S_IXGRP OR S_IXOTH) = 0)"
proof -
  from chmod_error [OF assms(4)] have "w3 = w2" .
  with assms have m: "main w argv = (Raised e, w2)" by (simp add: main_def)
  from write_file_ok [OF assms(3)]
  have f: "fs w2 (out a) = Some (File (build_script (test a)) (mode_after_open w1 (out a)))"
    by simp
  have old: "\<forall>c m. fs w1 (out a) = Some (File c m) \<longrightarrow> mode_after_open w1 (out a) = m"
    by (simp add: mode_after_open_def)
  have new: "fs w1 (out a) = None \<longrightarrow>
      mode_after_open w1 (out a) = 438 AND NOT (umask w1) \<and>
      mode_after_open w1 (out a) AND (S_IXUSR OR S_IXGRP OR S_IXOTH) = 0"
    using new_file_not_executable [of "umask w1"] by (simp add: mode_after_open_def)
  from m have x: "exit_code (fst (main w argv)) = 1" by (simp add: exit_code_def)
  from m x f old new show ?thesis by blast
qed

theorem chmod_failure_leaves_file_witness:
  "parse_args example_argv = Parsed example_args \<and>
   ensure_dir modeless_world (dirname (out example_args)) = (None, modeless_world1) \<and>
   write_file modeless_world1 (out example_args) (build_script (test example_args)) =
     (None, modeless_world2) \<and>
   chmod modeless_world2 (out example_args) permissions = (Some EPERM, modeless_world2) \<and>
   fs modeless_world1 (out example_args) = None \<and>
   main modeless_world example_argv = (Raised EPERM, modeless_world2) \<and>
   exit_code (fst (main modeless_world example_argv)) = 1 \<and>
   fs modeless_world2 (out example_args) =
     Some (File (build_script (test example_args)) (438 AND NOT (umask modeless_world1))) \<and>
   mode_after_open modeless_world1 (out example_args) AND (S_IXUSR OR S_IXGRP OR S_IXOTH) = 0"
proof -
  have p: "parse_args example_argv = Parsed example_args"
    by (simp add: parse_args_def example_argv_def example_args_def)
  have "fst (ensure_dir modeless_world (dirname (out example_args))) = None" by code_simp
  then have d: "ensure_dir modeless_world (dirname (out example_args)) = (None, modeless_world1)"
    by (simp add: modeless_world1_def prod_eq_iff)
  have "fst (write_file modeless_world1 (out example_args) (build_script (test example_args))) = None"
    by code_simp
  then have wr: "write_file modeless_world1 (out example_args) (build_script (test example_args)) =
      (None, modeless_world2)"
    by (simp add: modeless_world2_def prod_eq_iff)
  have "fst (chmod modeless_world2 (out example_args) permissions) = Some EPERM" by code_simp
  then have ch: "chmod modeless_world2 (out example_args) permissions =
      (Some EPERM, snd (chmod modeless_world2 (out example_args) permissions))"
    by (simp add: prod_eq_iff)
  have ch': "chmod modeless_world2 (out example_args) permissions = (Some EPERM, modeless_world2)"
    using ch chmod_error [OF ch] by simp
  have n: "fs modeless_world1 (out example_args) = None" by code_simp
  from chmod_failure_leaves_file [OF p d wr ch] p d wr ch' n show ?thesis
    by (simp add: exit_code_def new_file_not_executable)
qed

end
